theory Spec2Isabelle
  imports Complex_Main
begin

section \<open>Data model: the interfaces of types/index.ts\<close>

text \<open>
  A TypeScript \<^verbatim>\<open>number\<close> is modelled by a real number; the values that are not numbers
  (NaN, the infinities) are not represented. The program performs no arithmetic on
  numbers and never inspects one: it only passes them on.
\<close>

type_synonym number = real

text \<open>
  \<^verbatim>\<open>export interface Image { url: string; width: number; height: number; }\<close>
\<close>

record Image =
  url :: string
  width :: number
  height :: number

text \<open>
  \<^verbatim>\<open>export interface TextResult { text: string; confidence: number; }\<close>
\<close>

record TextResult =
  "text" :: string
  confidence :: number

section \<open>Promises, values and observable events\<close>

text \<open>
  A promise is represented by how it eventually settles: fulfilled with a value, rejected
  with a reason, or never settled at all.
\<close>

datatype ('e, 'a) promise = Fulfilled 'a | Rejected 'e | Pending

text \<open>
  The class \<^verbatim>\<open>OCR\<close> is imported from \<^verbatim>\<open>./ocr/ocr\<close>, which is not among the sources.
  Its behaviour is a parameter of the model: \<open>new_OCR\<close> is the outcome of the constructor
  call \<^verbatim>\<open>new OCR()\<close> (an exception \<open>Inl e\<close> or an instance \<open>Inr ocr\<close>), and \<open>extractText\<close>
  is how the promise awaited on \<^verbatim>\<open>ocr.extractText(path)\<close> settles. An exception thrown by
  the call itself has the same effect inside an \<^verbatim>\<open>async\<close> function as a rejection of the
  awaited promise, so both are \<open>Rejected\<close>. The type \<open>'e\<close> is the type of thrown values,
  \<open>'o\<close> the type of OCR instances.
\<close>

record ('e, 'o) OCR_class =
  new_OCR :: "'e + 'o"
  extractText :: "'o \<Rightarrow> string \<Rightarrow> ('e, TextResult) promise"

text \<open>The values handed to the console: string literals, result objects, caught errors.\<close>

datatype 'e jsvalue = JString string | JTextResult TextResult | JThrown 'e

text \<open>
  What a run does that can be seen from outside, in order: the constructor call, the
  extraction call with its argument, and the calls of \<^verbatim>\<open>console.log\<close> (standard output)
  and \<^verbatim>\<open>console.error\<close> (standard error) with their argument lists.
\<close>

datatype 'e event =
    New_OCR
  | ExtractText string
  | Console_log "'e jsvalue list"
  | Console_error "'e jsvalue list"

type_synonym 'e trace = "'e event list"

definition console_log :: "'e jsvalue list \<Rightarrow> 'e trace \<Rightarrow> 'e trace" where
  "console_log args tr = tr @ [Console_log args]"

definition console_error :: "'e jsvalue list \<Rightarrow> 'e trace \<Rightarrow> 'e trace" where
  "console_error args tr = tr @ [Console_error args]"

section \<open>The entry point\<close>

text \<open>
  The two string literals printed by the entry point, as the UTF-8 bytes of the source
  file: the label of line 16 (28 bytes) and the label of line 20 (31 bytes), both ending
  in a colon.
\<close>

definition log_label :: string where
  "log_label =
    [CHR 0xE6, CHR 0x8A, CHR 0xBD, CHR 0xE5, CHR 0x87, CHR 0xBA, CHR 0xE3, CHR 0x81, CHR 0x95,
     CHR 0xE3, CHR 0x82, CHR 0x8C, CHR 0xE3, CHR 0x81, CHR 0x9F, CHR 0xE3, CHR 0x83, CHR 0x86,
     CHR 0xE3, CHR 0x82, CHR 0xAD, CHR 0xE3, CHR 0x82, CHR 0xB9, CHR 0xE3, CHR 0x83, CHR 0x88,
     CHR 0x3A]"

definition error_label :: string where
  "error_label =
    [CHR 0xE3, CHR 0x82, CHR 0xA8, CHR 0xE3, CHR 0x83, CHR 0xA9, CHR 0xE3, CHR 0x83, CHR 0xBC,
     CHR 0xE3, CHR 0x81, CHR 0x8C, CHR 0xE7, CHR 0x99, CHR 0xBA, CHR 0xE7, CHR 0x94, CHR 0x9F,
     CHR 0xE3, CHR 0x81, CHR 0x97, CHR 0xE3, CHR 0x81, CHR 0xBE, CHR 0xE3, CHR 0x81, CHR 0x97,
     CHR 0xE3, CHR 0x81, CHR 0x9F, CHR 0x3A]"

text \<open>
  \<^verbatim>\<open>
  const main = async () => {
      const ocr = new OCR();
      const imagePath = 'path/to/image.png';
      const textResult = await ocr.extractText(imagePath);
      console.log(<label>, textResult);
  };
  \<close>
  The function takes the trace so far and returns the promise of the \<^verbatim>\<open>async\<close> function
  together with the extended trace. An exception in the body rejects the promise; a
  promise that never settles leaves the body suspended at the \<^verbatim>\<open>await\<close>.
\<close>

definition main :: "('e, 'o) OCR_class \<Rightarrow> 'e trace \<Rightarrow> ('e, unit) promise \<times> 'e trace" where
  "main cls tr =
    (case new_OCR cls of
       Inl e \<Rightarrow> (Rejected e, tr @ [New_OCR])
     | Inr ocr \<Rightarrow>
        (let imagePath = ''path/to/image.png'';
             tr' = tr @ [New_OCR, ExtractText imagePath]
         in case extractText cls ocr imagePath of
              Rejected e \<Rightarrow> (Rejected e, tr')
            | Pending \<Rightarrow> (Pending, tr')
            | Fulfilled textResult \<Rightarrow>
                (Fulfilled (), console_log [JString log_label, JTextResult textResult] tr')))"

text \<open>
  The handler of line 19 to 21:
  \<^verbatim>\<open>error => { console.error(<label>, error); }\<close>
\<close>

definition on_rejected :: "'e \<Rightarrow> 'e trace \<Rightarrow> 'e trace" where
  "on_rejected error tr = console_error [JString error_label, JThrown error] tr"

text \<open>
  \<^verbatim>\<open>p.catch(h)\<close>: when \<open>p\<close> is rejected the handler runs on the reason and the new promise
  is fulfilled with what the handler returns (here \<^verbatim>\<open>undefined\<close>); a fulfilled promise
  passes through; a promise that never settles gives one that never settles.
\<close>

definition promise_catch ::
  "('e, unit) promise \<times> 'e trace \<Rightarrow> ('e \<Rightarrow> 'e trace \<Rightarrow> 'e trace) \<Rightarrow> ('e, unit) promise \<times> 'e trace" where
  "promise_catch pt h =
    (case pt of
       (Rejected e, tr) \<Rightarrow> (Fulfilled (), h e tr)
     | (Fulfilled v, tr) \<Rightarrow> (Fulfilled v, tr)
     | (Pending, tr) \<Rightarrow> (Pending, tr))"

text \<open>
  The module's top-level statement \<^verbatim>\<open>main().catch(error => {...})\<close>, run by a process that
  was started with the command line \<open>argv\<close>. The source never reads the command line.
  The promise returned is the one \<^verbatim>\<open>.catch\<close> yields; nothing handles it further.
\<close>

definition program :: "string list \<Rightarrow> ('e, 'o) OCR_class \<Rightarrow> ('e, unit) promise \<times> 'e trace" where
  "program argv cls = promise_catch (main cls []) on_rejected"

section \<open>Observations on a run\<close>

text \<open>
  A rejected promise that no handler is attached to is an unhandled rejection, on which
  the runtime aborts the process.
\<close>

definition unhandled_rejection :: "('e, 'a) promise \<Rightarrow> bool" where
  "unhandled_rejection p = (case p of Rejected e \<Rightarrow> True | Fulfilled v \<Rightarrow> False | Pending \<Rightarrow> False)"

primrec stdout :: "'e trace \<Rightarrow> 'e jsvalue list list" where
  "stdout [] = []"
| "stdout (ev # tr) = (case ev of Console_log args \<Rightarrow> args # stdout tr | _ \<Rightarrow> stdout tr)"

primrec stderr :: "'e trace \<Rightarrow> 'e jsvalue list list" where
  "stderr [] = []"
| "stderr (ev # tr) = (case ev of Console_error args \<Rightarrow> args # stderr tr | _ \<Rightarrow> stderr tr)"

primrec extract_calls :: "'e trace \<Rightarrow> string list" where
  "extract_calls [] = []"
| "extract_calls (ev # tr) =
    (case ev of ExtractText path \<Rightarrow> path # extract_calls tr | _ \<Rightarrow> extract_calls tr)"

text \<open>
  The states of the specification's flow, read off the promise of \<open>main\<close>: the body is
  still suspended, it ran to its end, or it failed.
\<close>

datatype status = Running | Succeeded | Failed

definition status_of :: "('e, 'a) promise \<Rightarrow> status" where
  "status_of p = (case p of Pending \<Rightarrow> Running | Fulfilled v \<Rightarrow> Succeeded | Rejected e \<Rightarrow> Failed)"

text \<open>
  Concrete OCR classes on which the theorems below are evaluated, with strings as thrown
  values and a single instance: a client whose extraction yields the result \<open>r\<close>, one
  whose extraction fails with \<open>e\<close>, one whose extraction never settles, and a class
  whose constructor throws \<open>e\<close>.
\<close>

definition reading_client :: "TextResult \<Rightarrow> (string, unit) OCR_class" where
  "reading_client r = \<lparr>new_OCR = Inr (), extractText = (\<lambda>ocr path. Fulfilled r)\<rparr>"

definition failing_client :: "string \<Rightarrow> (string, unit) OCR_class" where
  "failing_client e = \<lparr>new_OCR = Inr (), extractText = (\<lambda>ocr path. Rejected e)\<rparr>"

definition stalled_client :: "(string, unit) OCR_class" where
  "stalled_client = \<lparr>new_OCR = Inr (), extractText = (\<lambda>ocr path. Pending)\<rparr>"

definition broken_class :: "string \<Rightarrow> (string, unit) OCR_class" where
  "broken_class e = \<lparr>new_OCR = Inl e, extractText = (\<lambda>ocr path. Pending)\<rparr>"

section \<open>Basic facts about the entry point\<close>

lemmas run_defs =
  program_def main_def promise_catch_def on_rejected_def console_error_def console_log_def

lemma stderr_append: "stderr (tr @ tr') = stderr tr @ stderr tr'"
  by (induction tr) (simp_all split: event.splits)

lemma main_prints_no_error: "stderr (snd (main cls [])) = []"
  by (simp add: main_def console_log_def Let_def split: sum.splits promise.splits)

section \<open>Failure of the extraction call\<close>

text \<open>
  Claim C1. Whatever error \<open>e\<close> the extraction call raises, the top-level handler catches
  it and prints a diagnostic (the error label and \<open>e\<close>) on standard error; nothing is
  printed on standard output, and the promise left at the end is fulfilled, so no
  uncaught error escapes and the process does not crash.
\<close>

theorem extraction_error_is_caught:
  assumes "new_OCR cls = Inr ocr"
    and "extractText cls ocr ''path/to/image.png'' = Rejected e"
  shows "program argv cls =
           (Fulfilled (),
            [New_OCR, ExtractText ''path/to/image.png'',
             Console_error [JString error_label, JThrown e]])
         \<and> stderr (snd (program argv cls)) = [[JString error_label, JThrown e]]
         \<and> stdout (snd (program argv cls)) = []
         \<and> \<not> unhandled_rejection (fst (program argv cls))"
  using assms by (simp add: run_defs unhandled_rejection_def)

theorem extraction_error_is_caught_witness:
  "program [] (failing_client ''ENOENT'') =
     (Fulfilled (),
      [New_OCR, ExtractText ''path/to/image.png'',
       Console_error [JString error_label, JThrown ''ENOENT'']])
   \<and> stderr (snd (program [] (failing_client ''ENOENT''))) =
       [[JString error_label, JThrown ''ENOENT'']]
   \<and> stdout (snd (program [] (failing_client ''ENOENT''))) = []
   \<and> \<not> unhandled_rejection (fst (program [] (failing_client ''ENOENT'')))"
proof -
  have "new_OCR (failing_client ''ENOENT'') = Inr ()"
    by (simp add: failing_client_def)
  moreover have
    "extractText (failing_client ''ENOENT'') () ''path/to/image.png'' = Rejected ''ENOENT''"
    by (simp add: failing_client_def)
  ultimately show ?thesis
    by (rule extraction_error_is_caught)
qed

text \<open>
  Claim C10. The handler is attached to the promise of the whole body of \<open>main\<close>, so an
  error \<open>e\<close> thrown by the constructor \<^verbatim>\<open>new OCR()\<close> reaches the same handler
  \<open>on_rejected\<close>: it is printed with the error label on standard error, the extraction is
  never called, and no rejection is left unhandled.
\<close>

theorem constructor_error_is_caught:
  assumes "new_OCR cls = Inl e"
  shows "program argv cls = (Fulfilled (), on_rejected e [New_OCR])
         \<and> snd (program argv cls) = [New_OCR, Console_error [JString error_label, JThrown e]]
         \<and> extract_calls (snd (program argv cls)) = []
         \<and> \<not> unhandled_rejection (fst (program argv cls))"
  using assms by (simp add: run_defs unhandled_rejection_def)

theorem constructor_error_is_caught_witness:
  "program [] (broken_class ''no engine'') = (Fulfilled (), on_rejected ''no engine'' [New_OCR])
   \<and> snd (program [] (broken_class ''no engine'')) =
       [New_OCR, Console_error [JString error_label, JThrown ''no engine'']]
   \<and> extract_calls (snd (program [] (broken_class ''no engine''))) = []
   \<and> \<not> unhandled_rejection (fst (program [] (broken_class ''no engine'')))"
proof -
  have "new_OCR (broken_class ''no engine'') = Inl ''no engine''"
    by (simp add: broken_class_def)
  then show ?thesis
    by (rule constructor_error_is_caught)
qed

text \<open>
  Claim C3, as stated: on failure the rejection of the entry point's promise is left
  unhandled and the process ends on the runtime's unhandled-rejection path. It fails on
  the source: with a client whose extraction fails, the promise of \<open>main\<close> is rejected,
  but the \<^verbatim>\<open>.catch\<close> of line 19 handles it and the promise left at the end is fulfilled.
\<close>

theorem unhandled_rejection_counterexample:
  "fst (main (failing_client ''ENOENT'') []) = Rejected ''ENOENT''
   \<and> fst (program [] (failing_client ''ENOENT'')) = Fulfilled ()
   \<and> \<not> unhandled_rejection (fst (program [] (failing_client ''ENOENT'')))"
  by (simp add: run_defs unhandled_rejection_def failing_client_def)

text \<open>
  Claim C3, amended. Whenever the promise of \<open>main\<close> is rejected with \<open>e\<close>, the handler
  written in the source runs on \<open>e\<close>: the error label and \<open>e\<close> are printed on standard
  error, and the promise returned by \<^verbatim>\<open>.catch\<close> is fulfilled, so the rejection is handled
  in code and the process ends normally.
\<close>

theorem rejection_is_handled_by_catch:
  assumes "fst (main cls []) = Rejected e"
  shows "program argv cls = (Fulfilled (), on_rejected e (snd (main cls [])))
         \<and> stderr (snd (program argv cls)) = [[JString error_label, JThrown e]]
         \<and> \<not> unhandled_rejection (fst (program argv cls))"
proof -
  obtain p tr where run: "main cls [] = (p, tr)"
    by (cases "main cls []")
  with assms have p: "p = Rejected e"
    by simp
  have "stderr tr = []"
    using main_prints_no_error [of cls] run by simp
  then show ?thesis
    using run p
    by (simp add: program_def promise_catch_def on_rejected_def console_error_def
        stderr_append unhandled_rejection_def)
qed

theorem rejection_is_handled_by_catch_witness:
  "program [] (failing_client ''ENOENT'') =
     (Fulfilled (), on_rejected ''ENOENT'' (snd (main (failing_client ''ENOENT'') [])))
   \<and> stderr (snd (program [] (failing_client ''ENOENT''))) =
       [[JString error_label, JThrown ''ENOENT'']]
   \<and> \<not> unhandled_rejection (fst (program [] (failing_client ''ENOENT'')))"
proof -
  have "fst (main (failing_client ''ENOENT'') []) = Rejected ''ENOENT''"
    by (simp add: main_def failing_client_def)
  then show ?thesis
    by (rule rejection_is_handled_by_catch)
qed

section \<open>Success of the extraction call\<close>

text \<open>
  Claim C2, as stated: on success the entry point prints the \<^verbatim>\<open>text\<close> field of the
  result. It fails on the source: line 16 passes the label and the whole result object
  to \<^verbatim>\<open>console.log\<close>. For the result with text HELLO the arguments printed are not the
  string HELLO, and two results with the same text and different confidence are printed
  differently.
\<close>

theorem prints_text_field_counterexample:
  "stdout (snd (program [] (reading_client \<lparr>text = ''HELLO'', confidence = 1\<rparr>)))
     \<noteq> [[JString ''HELLO'']]
   \<and> stdout (snd (program [] (reading_client \<lparr>text = ''HELLO'', confidence = 1\<rparr>)))
     \<noteq> stdout (snd (program [] (reading_client \<lparr>text = ''HELLO'', confidence = 0\<rparr>)))"
  by (simp add: run_defs reading_client_def)

text \<open>
  Claim C2, amended. When the extraction call succeeds with the result \<open>r\<close>, the entry
  point makes exactly one \<^verbatim>\<open>console.log\<close> call, whose arguments are the label of line 16
  and the whole object \<open>r\<close> (its text together with its confidence); nothing is printed
  on standard error and the promise is fulfilled.
\<close>

theorem success_prints_label_and_result:
  assumes "new_OCR cls = Inr ocr"
    and "extractText cls ocr ''path/to/image.png'' = Fulfilled r"
  shows "stdout (snd (program argv cls)) = [[JString log_label, JTextResult r]]
         \<and> stderr (snd (program argv cls)) = []
         \<and> fst (program argv cls) = Fulfilled ()"
  using assms by (simp add: run_defs)

theorem success_prints_label_and_result_witness:
  "stdout (snd (program [] (reading_client \<lparr>text = ''HELLO'', confidence = 9 / 10\<rparr>))) =
     [[JString log_label, JTextResult \<lparr>text = ''HELLO'', confidence = 9 / 10\<rparr>]]
   \<and> stderr (snd (program [] (reading_client \<lparr>text = ''HELLO'', confidence = 9 / 10\<rparr>))) = []
   \<and> fst (program [] (reading_client \<lparr>text = ''HELLO'', confidence = 9 / 10\<rparr>)) = Fulfilled ()"
proof -
  let ?r = "\<lparr>text = ''HELLO'', confidence = 9 / 10\<rparr>"
  have "new_OCR (reading_client ?r) = Inr ()"
    by (simp add: reading_client_def)
  moreover have "extractText (reading_client ?r) () ''path/to/image.png'' = Fulfilled ?r"
    by (simp add: reading_client_def)
  ultimately show ?thesis
    by (rule success_prints_label_and_result)
qed

section \<open>The fixed path and the single call\<close>

text \<open>
  Claim C5. The entry point takes no parameter and reads no command-line argument:
  whatever command line \<open>argv\<close> the process was started with, once the client is
  constructed the extraction is called with the literal \<^verbatim>\<open>'path/to/image.png'\<close> of
  line 14, and with nothing else.
\<close>

theorem path_is_fixed_literal:
  assumes "new_OCR cls = Inr ocr"
  shows "extract_calls (snd (program argv cls)) = [''path/to/image.png'']"
  using assms by (simp add: run_defs Let_def split: promise.splits)

theorem path_is_fixed_literal_witness:
  "extract_calls
     (snd (program [''--image'', ''samples/hello.png'']
            (reading_client \<lparr>text = ''HELLO'', confidence = 9 / 10\<rparr>))) =
   [''path/to/image.png'']"
proof -
  have "new_OCR (reading_client \<lparr>text = ''HELLO'', confidence = 9 / 10\<rparr>) = Inr ()"
    by (simp add: reading_client_def)
  then show ?thesis
    by (rule path_is_fixed_literal)
qed

text \<open>
  Claim C7, as stated: every run calls the extraction exactly once and ends in Succeeded
  or Failed. It fails on the source in two ways. When the constructor throws, the run
  fails before line 15 and the extraction is not called at all. When the awaited promise
  never settles, the body stays suspended: the run is neither Succeeded nor Failed.
\<close>

theorem exactly_one_extraction_counterexample:
  "length (extract_calls (snd (program [] (broken_class ''no engine'')))) \<noteq> 1
   \<and> status_of (fst (main stalled_client [])) \<noteq> Succeeded
   \<and> status_of (fst (main stalled_client [])) \<noteq> Failed"
  by (simp add: run_defs status_of_def broken_class_def stalled_client_def)

text \<open>
  Claim C7, amended. In every run the extraction is called at most once: exactly once,
  with the fixed path, when the constructor returns, and not at all when it throws. The
  handler makes no further call, so nothing is retried after a failure. The state of
  the run is Failed when the constructor throws or the extraction is rejected,
  Succeeded when the extraction is fulfilled, and stays Running only if the awaited
  promise never settles. Succeeded and Failed are final: a run that succeeded has
  printed once on standard output and nothing on standard error, a run that failed has
  printed once on standard error and nothing on standard output.
\<close>

theorem single_shot_flow:
  "extract_calls (snd (program argv cls)) =
     (case new_OCR cls of Inl e \<Rightarrow> [] | Inr ocr \<Rightarrow> [''path/to/image.png''])
   \<and> extract_calls (snd (program argv cls)) = extract_calls (snd (main cls []))
   \<and> status_of (fst (main cls [])) =
       (case new_OCR cls of
          Inl e \<Rightarrow> Failed
        | Inr ocr \<Rightarrow>
           (case extractText cls ocr ''path/to/image.png'' of
              Fulfilled r \<Rightarrow> Succeeded
            | Rejected e \<Rightarrow> Failed
            | Pending \<Rightarrow> Running))
   \<and> length (stdout (snd (program argv cls))) =
       (if status_of (fst (main cls [])) = Succeeded then 1 else 0)
   \<and> length (stderr (snd (program argv cls))) =
       (if status_of (fst (main cls [])) = Failed then 1 else 0)"
  by (simp add: run_defs status_of_def Let_def split: sum.splits promise.splits)

end
